theory Spec2Isabelle
  imports Complex_Main "HOL-Library.Word"
begin

section \<open>ROM files and models (midi\_mt32\_model.h, midi\_mt32\_model.cpp)\<close>

text \<open>
  Every \<open>assert\<close> of the source is a branch of the model that ends in
  \<open>AssertionFailed\<close>. A call that waits on a queue which no other thread
  serves is \<open>WouldBlock\<close>; a call through a null \<open>unique_ptr\<close> is
  \<open>NullDereference\<close>; a division whose divisor is zero is \<open>ZeroDivisor\<close>.
\<close>

datatype error = AssertionFailed | WouldBlock | NullDereference | ZeroDivisor

text \<open>\<open>struct rom_t\<close>: the field \<open>id\<close> is called \<open>rom_id\<close> here.\<close>

record rom_t =
  rom_id :: string
  filename :: string

text \<open>
  \<open>std::string::find_first_of(char)\<close> and \<open>find_last_of(char)\<close>: the position of
  the first (last) occurrence; \<open>None\<close> stands for \<open>std::string::npos\<close>.
\<close>

fun find_first_of :: "string \<Rightarrow> char \<Rightarrow> nat option" where
  "find_first_of [] c = None"
| "find_first_of (x # xs) c =
     (if x = c then Some 0 else map_option Suc (find_first_of xs c))"

fun find_last_of :: "string \<Rightarrow> char \<Rightarrow> nat option" where
  "find_last_of [] c = None"
| "find_last_of (x # xs) c =
     (case find_last_of xs c of
        Some i \<Rightarrow> Some (Suc i)
      | None \<Rightarrow> (if x = c then Some 0 else None))"

definition is_versioned :: "rom_t \<Rightarrow> bool" where
  "is_versioned rom =
     (find_first_of (rom_id rom) CHR ''_'' \<noteq> find_last_of (rom_id rom) CHR ''_'')"

text \<open>
  \<open>class Model\<close>. The six \<open>const rom_t *\<close> members are \<open>rom_t option\<close>
  (\<open>nullptr\<close> is \<open>None\<close>; the ROM descriptions are constants, so aliasing
  between models is not observable). \<open>std::map<std::string, bool> inDir\<close> is a map.
\<close>

record Model =
  inDir :: "string \<rightharpoonup> bool"
  name :: string
  version :: string
  pcmFull :: "rom_t option"
  pcmA :: "rom_t option"
  pcmB :: "rom_t option"
  ctrlFull :: "rom_t option"
  ctrlA :: "rom_t option"
  ctrlB :: "rom_t option"

text \<open>The member initialiser list of the constructor.\<close>

definition Model_init ::
  "string \<Rightarrow> rom_t option \<Rightarrow> rom_t option \<Rightarrow> rom_t option \<Rightarrow>
   rom_t option \<Rightarrow> rom_t option \<Rightarrow> rom_t option \<Rightarrow> Model" where
  "Model_init rom_name pcm_full pcm_a pcm_b ctrl_full ctrl_a ctrl_b =
     \<lparr>inDir = Map.empty, name = rom_name, version = [],
      pcmFull = pcm_full, pcmA = pcm_a, pcmB = pcm_b,
      ctrlFull = ctrl_full, ctrlA = ctrl_a, ctrlB = ctrl_b\<rparr>"

text \<open>\<open>Model::Model\<close>: the initialiser list followed by the three assertions.\<close>

definition Model_Model ::
  "string \<Rightarrow> rom_t option \<Rightarrow> rom_t option \<Rightarrow> rom_t option \<Rightarrow>
   rom_t option \<Rightarrow> rom_t option \<Rightarrow> rom_t option \<Rightarrow> error + Model" where
  "Model_Model rom_name pcm_full pcm_a pcm_b ctrl_full ctrl_a ctrl_b =
     (let m = Model_init rom_name pcm_full pcm_a pcm_b ctrl_full ctrl_a ctrl_b in
      if name m = [] then Inl AssertionFailed
      else if \<not> (pcmFull m \<noteq> None \<or> (pcmA m \<noteq> None \<and> pcmB m \<noteq> None))
        then Inl AssertionFailed
      else if \<not> (ctrlFull m \<noteq> None \<or> (ctrlA m \<noteq> None \<and> ctrlB m \<noteq> None))
        then Inl AssertionFailed
      else Inr m)"

definition Name :: "Model \<Rightarrow> string" where
  "Name m = name m"

subsection \<open>The engine and the filesystem\<close>

text \<open>
  The return codes of the engine that the source compares against; every other code
  is \<open>MT32EMU_RC_OTHER\<close> with its number.
\<close>

datatype mt32emu_return_code =
    MT32EMU_RC_OK
  | MT32EMU_RC_ADDED_CONTROL_ROM
  | MT32EMU_RC_ADDED_PCM_ROM
  | MT32EMU_RC_OTHER int

text \<open>The two fields of \<open>mt32emu_rom_info\<close> that the source reads (nullable C strings).\<close>

record mt32emu_rom_info =
  control_rom_id :: "string option"
  pcm_rom_id :: "string option"

text \<open>
  The collaborators of the model code: \<open>path_exists\<close> of the filesystem helpers and
  the three calls into the engine service. Identification reads a file only; adding
  ROMs changes the state \<open>'e\<close> of the engine context, and its return code may depend
  on that state.
\<close>

record 'e env =
  path_exists :: "string \<Rightarrow> bool"
  identifyROMFile :: "string \<Rightarrow> mt32emu_return_code \<times> mt32emu_rom_info"
  addROMFile :: "string \<Rightarrow> 'e \<Rightarrow> mt32emu_return_code \<times> 'e"
  mergeAndAddROMFiles :: "string \<Rightarrow> string \<Rightarrow> 'e \<Rightarrow> mt32emu_return_code \<times> 'e"

text \<open>
  The filesystem and identification work done by a call, in order, is returned as a
  list of probes next to the result.
\<close>

datatype probe = PathExists string | IdentifyROMFile string

text \<open>The lambda \<open>check_rom\<close> of \<open>Model::InDir\<close>.\<close>

definition check_rom :: "'e env \<Rightarrow> string \<Rightarrow> rom_t option \<Rightarrow> bool \<times> probe list" where
  "check_rom w dir rom =
     (case rom of
        None \<Rightarrow> (False, [])
      | Some r \<Rightarrow>
          (let rom_path = dir @ filename r in
           if \<not> path_exists w rom_path then (False, [PathExists rom_path])
           else
             (let (rcode, info) = identifyROMFile w rom_path;
                  probes = [PathExists rom_path, IdentifyROMFile rom_path] in
              if rcode \<noteq> MT32EMU_RC_OK then (False, probes)
              else if is_versioned r then
                (let ctrl_ver_matches =
                       (case control_rom_id info of None \<Rightarrow> False | Some s \<Rightarrow> rom_id r = s);
                     pcm_ver_matches =
                       (case pcm_rom_id info of None \<Rightarrow> False | Some s \<Rightarrow> rom_id r = s)
                 in (ctrl_ver_matches \<or> pcm_ver_matches, probes))
              else (True, probes))))"

text \<open>\<open>a && b\<close> and \<open>a || b\<close>: the right operand does its probes only when it is evaluated.\<close>

definition and_also :: "bool \<times> probe list \<Rightarrow> bool \<times> probe list \<Rightarrow> bool \<times> probe list" where
  "and_also a b = (if fst a then (fst b, snd a @ snd b) else a)"

definition or_else :: "bool \<times> probe list \<Rightarrow> bool \<times> probe list \<Rightarrow> bool \<times> probe list" where
  "or_else a b = (if fst a then a else (fst b, snd a @ snd b))"

text \<open>The lambda \<open>check_both\<close> of \<open>Model::InDir\<close>.\<close>

definition check_both ::
  "'e env \<Rightarrow> string \<Rightarrow> rom_t option \<Rightarrow> rom_t option \<Rightarrow> bool \<times> probe list" where
  "check_both w dir rom_a rom_b = and_also (check_rom w dir rom_a) (check_rom w dir rom_b)"

text \<open>
  \<open>Model::InDir\<close>. The service handle is a \<open>unique_ptr\<close>: \<open>None\<close> is the null
  handle, \<open>Some e\<close> a context in state \<open>e\<close>. The result is the boolean, the model
  with its cache, and the probes done by this call.
\<close>

definition InDir ::
  "'e env \<Rightarrow> 'e option \<Rightarrow> string \<Rightarrow> Model \<Rightarrow> error + (bool \<times> Model \<times> probe list)" where
  "InDir w service dir m =
     (if service = None then Inl AssertionFailed
      else
        (case inDir m dir of
           Some b \<Rightarrow> Inr (b, m, [])
         | None \<Rightarrow>
             (let have_pcm = or_else (check_rom w dir (pcmFull m))
                                     (check_both w dir (pcmA m) (pcmB m));
                  have_ctrl = or_else (check_rom w dir (ctrlFull m))
                                      (check_both w dir (ctrlA m) (ctrlB m));
                  have_both = (fst have_pcm \<and> fst have_ctrl)
              in Inr (have_both, m\<lparr>inDir := (inDir m)(dir \<mapsto> have_both)\<rparr>,
                      snd have_pcm @ snd have_ctrl))))"

text \<open>
  The two statements of \<open>Model::Load\<close> that compute \<open>loaded_pcm\<close> and
  \<open>loaded_ctrl\<close>, with their lambdas \<open>load_rom\<close> and \<open>load_pair\<close>. Each takes the
  state of the engine context and returns the state the engine calls leave behind.
\<close>

definition load_rom ::
  "'e env \<Rightarrow> string \<Rightarrow> rom_t option \<Rightarrow> mt32emu_return_code \<Rightarrow> 'e \<Rightarrow> bool \<times> 'e" where
  "load_rom w dir rom expected_code e =
     (case rom of
        None \<Rightarrow> (False, e)
      | Some r \<Rightarrow>
          (let (rcode, e') = addROMFile w (dir @ filename r) e
           in (rcode = expected_code, e')))"

definition load_pair ::
  "'e env \<Rightarrow> string \<Rightarrow> rom_t option \<Rightarrow> rom_t option \<Rightarrow> mt32emu_return_code \<Rightarrow> 'e
   \<Rightarrow> bool \<times> 'e" where
  "load_pair w dir rom_a rom_b expected_code e =
     (case (rom_a, rom_b) of
        (Some a, Some b) \<Rightarrow>
          (let (rcode, e') = mergeAndAddROMFiles w (dir @ filename a) (dir @ filename b) e
           in (rcode = expected_code, e'))
      | _ \<Rightarrow> (False, e))"

definition loaded_pcm :: "'e env \<Rightarrow> string \<Rightarrow> Model \<Rightarrow> 'e \<Rightarrow> bool \<times> 'e" where
  "loaded_pcm w dir m e =
     (case load_rom w dir (pcmFull m) MT32EMU_RC_ADDED_PCM_ROM e of
        (True, e1) \<Rightarrow> (True, e1)
      | (False, e1) \<Rightarrow> load_pair w dir (pcmA m) (pcmB m) MT32EMU_RC_ADDED_PCM_ROM e1)"

definition loaded_ctrl :: "'e env \<Rightarrow> string \<Rightarrow> Model \<Rightarrow> 'e \<Rightarrow> bool \<times> 'e" where
  "loaded_ctrl w dir m e =
     (case load_rom w dir (ctrlFull m) MT32EMU_RC_ADDED_CONTROL_ROM e of
        (True, e1) \<Rightarrow> (True, e1)
      | (False, e1) \<Rightarrow> load_pair w dir (ctrlA m) (ctrlB m) MT32EMU_RC_ADDED_CONTROL_ROM e1)"

text \<open>
  \<open>Model::Load\<close>. \<open>!service || !InDir(service, dir)\<close> short-circuits, so \<open>InDir\<close>
  is called with a non-null handle only.
\<close>

definition Load ::
  "'e env \<Rightarrow> 'e option \<Rightarrow> string \<Rightarrow> Model \<Rightarrow> error + (bool \<times> Model \<times> 'e option)" where
  "Load w service dir m =
     (case service of
        None \<Rightarrow> Inr (False, m, None)
      | Some e \<Rightarrow>
          (case InDir w service dir m of
             Inl err \<Rightarrow> Inl err
           | Inr (present, m1, probes) \<Rightarrow>
               if \<not> present then Inr (False, m1, service)
               else
                 (let (lp, e1) = loaded_pcm w dir m1 e;
                      (lc, e2) = loaded_ctrl w dir m1 e1
                  in Inr (lp \<and> lc, m1, Some e2))))"

section \<open>The catalog and the resolver (midi\_mt32.cpp)\<close>

subsection \<open>ROM descriptions\<close>

definition mt32_nover_pcm_f :: rom_t where
  "mt32_nover_pcm_f = \<lparr>rom_id = ''pcm_mt32'', filename = ''MT32_PCM.ROM''\<rparr>"
definition mt32_nover_ctrl_f :: rom_t where
  "mt32_nover_ctrl_f = \<lparr>rom_id = ''ctrl_mt32'', filename = ''MT32_CONTROL.ROM''\<rparr>"
definition cm32l_nover_pcm_f :: rom_t where
  "cm32l_nover_pcm_f = \<lparr>rom_id = ''pcm_cm32l'', filename = ''CM32L_PCM.ROM''\<rparr>"
definition cm32l_nover_ctrl_f :: rom_t where
  "cm32l_nover_ctrl_f = \<lparr>rom_id = ''ctrl_cm32l'', filename = ''CM32L_CONTROL.ROM''\<rparr>"

definition mt32_pcm_nover_f :: rom_t where
  "mt32_pcm_nover_f = \<lparr>rom_id = ''pcm_mt32'', filename = ''r15449121.ic37.bin''\<rparr>"
definition mt32_pcm_nover_l :: rom_t where
  "mt32_pcm_nover_l = \<lparr>rom_id = ''pcm_mt32_l'', filename = ''r15179844.ic21.bin''\<rparr>"
definition mt32_pcm_nover_h :: rom_t where
  "mt32_pcm_nover_h = \<lparr>rom_id = ''pcm_mt32_h'', filename = ''r15179845.ic22.bin''\<rparr>"
definition mt32_ctrl_1_04_a :: rom_t where
  "mt32_ctrl_1_04_a = \<lparr>rom_id = ''ctrl_mt32_1_04_a'', filename = ''mt32_1.0.4.ic27.bin''\<rparr>"
definition mt32_ctrl_1_04_b :: rom_t where
  "mt32_ctrl_1_04_b = \<lparr>rom_id = ''ctrl_mt32_1_04_b'', filename = ''mt32_1.0.4.ic26.bin''\<rparr>"
definition mt32_ctrl_1_05_a :: rom_t where
  "mt32_ctrl_1_05_a = \<lparr>rom_id = ''ctrl_mt32_1_05_a'', filename = ''mt32_1.0.5.ic27.bin''\<rparr>"
definition mt32_ctrl_1_05_b :: rom_t where
  "mt32_ctrl_1_05_b = \<lparr>rom_id = ''ctrl_mt32_1_05_b'', filename = ''mt32_1.0.5.ic26.bin''\<rparr>"
definition mt32_ctrl_1_06_a :: rom_t where
  "mt32_ctrl_1_06_a = \<lparr>rom_id = ''ctrl_mt32_1_06_a'', filename = ''mt32_1.0.6.ic27.bin''\<rparr>"
definition mt32_ctrl_1_06_b :: rom_t where
  "mt32_ctrl_1_06_b = \<lparr>rom_id = ''ctrl_mt32_1_06_b'', filename = ''mt32_1.0.6.ic26.bin''\<rparr>"
definition mt32_ctrl_1_07_a :: rom_t where
  "mt32_ctrl_1_07_a = \<lparr>rom_id = ''ctrl_mt32_1_07_a'', filename = ''mt32_1.0.7.ic27.bin''\<rparr>"
definition mt32_ctrl_1_07_b :: rom_t where
  "mt32_ctrl_1_07_b = \<lparr>rom_id = ''ctrl_mt32_1_07_b'', filename = ''mt32_1.0.7.ic26.bin''\<rparr>"
definition mt32_ctrl_bluer_a :: rom_t where
  "mt32_ctrl_bluer_a = \<lparr>rom_id = ''ctrl_mt32_bluer_a'', filename = ''blue_ridge__mt32a.bin''\<rparr>"
definition mt32_ctrl_bluer_b :: rom_t where
  "mt32_ctrl_bluer_b = \<lparr>rom_id = ''ctrl_mt32_bluer_b'', filename = ''blue_ridge__mt32b.bin''\<rparr>"
definition mt32_ctrl_2_04_a :: rom_t where
  "mt32_ctrl_2_04_a = \<lparr>rom_id = ''ctrl_mt32_2_04_a'', filename = ''mt32_2.0.4.ic27.bin''\<rparr>"
definition mt32_ctrl_2_04_b :: rom_t where
  "mt32_ctrl_2_04_b = \<lparr>rom_id = ''ctrl_mt32_2_04_b'', filename = ''mt32_2.0.4.ic26.bin''\<rparr>"
definition cm32l_pcm_nover_l :: rom_t where
  "cm32l_pcm_nover_l = \<lparr>rom_id = ''pcm_mt32'', filename = ''r15449121.ic37.bin''\<rparr>"
definition cm32l_pcm_nover_h :: rom_t where
  "cm32l_pcm_nover_h = \<lparr>rom_id = ''pcm_cm32l_h'', filename = ''r15179945.ic8.bin''\<rparr>"
definition cm32l_ctrl_1_00_f :: rom_t where
  "cm32l_ctrl_1_00_f = \<lparr>rom_id = ''ctrl_cm32l_1_00'', filename = ''lapc-i.v1.0.0.ic3.bin''\<rparr>"
definition cm32l_ctrl_1_02_f :: rom_t where
  "cm32l_ctrl_1_02_f = \<lparr>rom_id = ''ctrl_cm32l_1_02'', filename = ''cm32l_control.rom''\<rparr>"

subsection \<open>Models\<close>

text \<open>
  The global \<open>Model\<close> objects as their constructors leave them (each passes the
  assertions of the constructor, see \<open>catalog_constructed\<close> below).
\<close>

definition mt32_nover_model :: Model where
  "mt32_nover_model =
     Model_init ''mt32'' (Some mt32_nover_pcm_f) None None (Some mt32_nover_ctrl_f) None None"
definition mt32_1_04_model :: Model where
  "mt32_1_04_model =
     Model_init ''mt32_1_04'' (Some mt32_pcm_nover_f) (Some mt32_pcm_nover_l)
       (Some mt32_pcm_nover_h) None (Some mt32_ctrl_1_04_a) (Some mt32_ctrl_1_04_b)"
definition mt32_1_05_model :: Model where
  "mt32_1_05_model =
     Model_init ''mt32_1_05'' (Some mt32_pcm_nover_f) (Some mt32_pcm_nover_l)
       (Some mt32_pcm_nover_h) None (Some mt32_ctrl_1_05_a) (Some mt32_ctrl_1_05_b)"
definition mt32_1_06_model :: Model where
  "mt32_1_06_model =
     Model_init ''mt32_1_06'' (Some mt32_pcm_nover_f) (Some mt32_pcm_nover_l)
       (Some mt32_pcm_nover_h) None (Some mt32_ctrl_1_06_a) (Some mt32_ctrl_1_06_b)"
definition mt32_1_07_model :: Model where
  "mt32_1_07_model =
     Model_init ''mt32_1_07'' (Some mt32_pcm_nover_f) (Some mt32_pcm_nover_l)
       (Some mt32_pcm_nover_h) None (Some mt32_ctrl_1_07_a) (Some mt32_ctrl_1_07_b)"
definition mt32_bluer_model :: Model where
  "mt32_bluer_model =
     Model_init ''mt32_bluer'' (Some mt32_pcm_nover_f) (Some mt32_pcm_nover_l)
       (Some mt32_pcm_nover_h) None (Some mt32_ctrl_bluer_a) (Some mt32_ctrl_bluer_b)"
definition mt32_2_04_model :: Model where
  "mt32_2_04_model =
     Model_init ''mt32_2_04'' (Some mt32_pcm_nover_f) (Some mt32_pcm_nover_l)
       (Some mt32_pcm_nover_h) None (Some mt32_ctrl_2_04_a) (Some mt32_ctrl_2_04_b)"
definition cm32l_nover_model :: Model where
  "cm32l_nover_model =
     Model_init ''cm32l'' (Some cm32l_nover_pcm_f) None None (Some cm32l_nover_ctrl_f) None None"
definition cm32l_1_00_model :: Model where
  "cm32l_1_00_model =
     Model_init ''cm32l_1_00'' (Some cm32l_nover_pcm_f) (Some cm32l_pcm_nover_l)
       (Some cm32l_pcm_nover_h) (Some cm32l_ctrl_1_00_f) None None"
definition cm32l_1_02_model :: Model where
  "cm32l_1_02_model =
     Model_init ''cm32l_1_02'' (Some cm32l_nover_pcm_f) (Some cm32l_pcm_nover_l)
       (Some cm32l_pcm_nover_h) (Some cm32l_ctrl_1_02_f) None None"


subsection \<open>\<open>load_model\<close>\<close>

text \<open>
  The inner loop \<open>for (const auto &dir : rom_dirs)\<close> for one model. \<open>Some dir\<close>
  is the directory at which \<open>return true\<close> is reached; \<open>None\<close> means the loop ran
  to its end.
\<close>

fun load_dirs ::
  "'e env \<Rightarrow> 'e option \<Rightarrow> Model \<Rightarrow> string list \<Rightarrow>
   error + (string option \<times> Model \<times> 'e option)" where
  "load_dirs w service m [] = Inr (None, m, service)"
| "load_dirs w service m (dir # rom_dirs) =
     (case InDir w service dir m of
        Inl err \<Rightarrow> Inl err
      | Inr (present, m1, probes) \<Rightarrow>
          if \<not> present then load_dirs w service m1 rom_dirs
          else
            (case Load w service dir m1 of
               Inl err \<Rightarrow> Inl err
             | Inr (loaded, m2, service2) \<Rightarrow>
                 if loaded then Inr (Some dir, m2, service2)
                 else load_dirs w service2 m2 rom_dirs))"

text \<open>
  The outer loop \<open>for (auto &model : all_models)\<close>, over the states of the catalog
  entries. The source returns \<open>true\<close> or \<open>false\<close>; the model returns, for \<open>true\<close>,
  the name of the model and the directory at which \<open>return true\<close> is reached, and
  \<open>None\<close> for \<open>false\<close>, together with the catalog and the service as the call leaves
  them.
\<close>

fun load_models ::
  "'e env \<Rightarrow> 'e option \<Rightarrow> string \<Rightarrow> string list \<Rightarrow> Model list \<Rightarrow>
   error + ((string \<times> string) option \<times> Model list \<times> 'e option)" where
  "load_models w service selected_model rom_dirs [] = Inr (None, [], service)"
| "load_models w service selected_model rom_dirs (model # models) =
     (let is_auto = (selected_model = ''auto'') in
      if is_auto \<or> selected_model = Name model then
        (case load_dirs w service model rom_dirs of
           Inl err \<Rightarrow> Inl err
         | Inr (Some dir, model', service') \<Rightarrow>
             Inr (Some (Name model, dir), model' # models, service')
         | Inr (None, model', service') \<Rightarrow>
             (case load_models w service' selected_model rom_dirs models of
                Inl err \<Rightarrow> Inl err
              | Inr (r, models', service'') \<Rightarrow> Inr (r, model' # models', service'')))
      else
        (case load_models w service selected_model rom_dirs models of
           Inl err \<Rightarrow> Inl err
         | Inr (r, models', service') \<Rightarrow> Inr (r, model # models', service')))"

definition load_model ::
  "'e env \<Rightarrow> 'e option \<Rightarrow> string \<Rightarrow> string list \<Rightarrow> Model list \<Rightarrow>
   error + ((string \<times> string) option \<times> Model list \<times> 'e option)" where
  "load_model w service selected_model rom_dirs models =
     load_models w service selected_model rom_dirs models"

section \<open>The buffer pipeline (midi\_mt32.cpp)\<close>

subsection \<open>The bounded queue\<close>

text \<open>
  Modelled from the spec: the class \<open>RWQueue\<close> (rwqueue.h is not among the sources),
  after the Bounded Recycling Queue of the design: a FIFO of fixed capacity whose
  \<open>Enqueue\<close> waits while the queue is at capacity and whose \<open>Dequeue\<close> waits
  while it is empty. Seen from one thread alone, a call that has to wait does not
  return: \<open>WouldBlock\<close>.
\<close>

record 'a RWQueue =
  queue :: "'a list"
  capacity :: nat

text \<open>Modelled from the spec: \<open>RWQueue::Size\<close> and \<open>RWQueue::MaxCapacity\<close>.\<close>

definition Size :: "'a RWQueue \<Rightarrow> nat" where
  "Size q = length (queue q)"

definition MaxCapacity :: "'a RWQueue \<Rightarrow> nat" where
  "MaxCapacity q = capacity q"

text \<open>
  Modelled from the spec: \<open>RWQueue::Enqueue\<close>, which waits while the queue is at
  capacity and otherwise appends the item.
\<close>

definition Enqueue :: "'a \<Rightarrow> 'a RWQueue \<Rightarrow> error + 'a RWQueue" where
  "Enqueue item q =
     (if Size q \<ge> capacity q then Inl WouldBlock
      else Inr (q\<lparr>queue := queue q @ [item]\<rparr>))"

text \<open>
  Modelled from the spec: \<open>RWQueue::Dequeue\<close>, which waits while the queue is empty
  and otherwise removes and returns the oldest item.
\<close>

definition Dequeue :: "'a RWQueue \<Rightarrow> error + ('a \<times> 'a RWQueue)" where
  "Dequeue q =
     (case queue q of
        [] \<Rightarrow> Inl WouldBlock
      | item # rest \<Rightarrow> Inr (item, q\<lparr>queue := rest\<rparr>))"

subsection \<open>The handler\<close>

text \<open>A buffer is a \<open>std::vector<int16_t>\<close>; a moved-from vector is empty.\<close>

type_synonym buffer = "16 word list"

definition FRAMES_PER_BUFFER :: int where
  "FRAMES_PER_BUFFER = 1024"

definition SAMPLES_PER_BUFFER :: int where
  "SAMPLES_PER_BUFFER = FRAMES_PER_BUFFER * 2"

text \<open>
  The mixer channel as far as the handler drives it: the enabled flag and the calls
  \<open>AddSamples_s16(frames, play_buffer.data() + offset)\<close> received so far, each as
  frame count, buffer and sample offset.
\<close>

record mixer_channel =
  enabled :: bool
  added :: "(nat \<times> buffer \<times> nat) list"

definition Enable :: "bool \<Rightarrow> mixer_channel \<Rightarrow> mixer_channel" where
  "Enable b c = c\<lparr>enabled := b\<rparr>"

definition AddSamples_s16 :: "nat \<Rightarrow> buffer \<Rightarrow> nat \<Rightarrow> mixer_channel \<Rightarrow> mixer_channel" where
  "AddSamples_s16 frames buf offset c = c\<lparr>added := added c @ [(frames, buf, offset)]\<rparr>"

text \<open>
  The members of \<open>MidiHandler_mt32\<close> that the functions below use. \<open>channel\<close> and
  \<open>service\<close> are \<open>unique_ptr\<close>s; \<open>'e\<close> is the state of the engine context,
  \<open>'l\<close> the state of the soft limiter; \<open>renderer_joinable\<close> is
  \<open>renderer.joinable()\<close>. The class declaration (midi\_mt32.h) is not among the
  sources: \<open>last_played_frame\<close> is taken as \<open>uint16_t\<close>, the type
  \<open>GetRemainingFrames\<close> returns and \<open>MixerCallBack\<close> counts in, and
  \<open>total_buffers_played\<close> as \<open>uint32_t\<close>, the type \<open>GetMidiEventTimestamp\<close>
  computes in.
\<close>

record ('e, 'l) MidiHandler_mt32 =
  channel :: "mixer_channel option"
  service :: "'e option"
  soft_limiter :: 'l
  backstock :: "buffer RWQueue"
  playable :: "buffer RWQueue"
  play_buffer :: buffer
  renderer_joinable :: bool
  keep_rendering :: bool
  total_buffers_played :: "32 word"
  last_played_frame :: "16 word"
  is_open :: bool

subsection \<open>\<open>Render\<close>: populating the backstock\<close>

text \<open>
  \<open>backstock.MaxCapacity() - 1\<close> is computed in \<open>size_t\<close>, so a capacity of zero
  wraps around.
\<close>

definition capacity_minus_one :: "'a RWQueue \<Rightarrow> nat" where
  "capacity_minus_one q = (if MaxCapacity q = 0 then 2 ^ 64 - 1 else MaxCapacity q - 1)"

text \<open>The loop \<open>while (backstock.Size() < backstock.MaxCapacity() - 1)\<close>.\<close>

function populate_backstock :: "buffer \<Rightarrow> buffer RWQueue \<Rightarrow> error + buffer RWQueue" where
  "populate_backstock playable_buffer q =
     (if Size q < capacity_minus_one q then
        (case Enqueue playable_buffer q of
           Inl err \<Rightarrow> Inl err
         | Inr q' \<Rightarrow> populate_backstock playable_buffer q')
      else Inr q)"
  by pat_completeness auto
termination
  by (relation "measure (\<lambda>(b, q). capacity_minus_one q - Size q)")
     (auto simp: Enqueue_def Size_def capacity_minus_one_def MaxCapacity_def split: if_splits)

text \<open>
  The first part of \<open>Render\<close>, up to and including its assertion: the buffer is
  allocated with \<open>SAMPLES_PER_BUFFER\<close> zero samples, copied into the backstock by the
  loop and moved into it by the last \<open>Enqueue\<close>.
\<close>

definition Render_populate ::
  "('e, 'l) MidiHandler_mt32 \<Rightarrow> error + ('e, 'l) MidiHandler_mt32" where
  "Render_populate h =
     (let playable_buffer = replicate (nat SAMPLES_PER_BUFFER) (0 :: 16 word) in
      case populate_backstock playable_buffer (backstock h) of
        Inl err \<Rightarrow> Inl err
      | Inr q1 \<Rightarrow>
          (case Enqueue playable_buffer q1 of
             Inl err \<Rightarrow> Inl err
           | Inr q2 \<Rightarrow>
               if Size q2 = MaxCapacity q2 then Inr (h\<lparr>backstock := q2\<rparr>)
               else Inl AssertionFailed))"

subsection \<open>\<open>MixerCallBack\<close> and \<open>GetRemainingFrames\<close>\<close>

definition GetRemainingFrames ::
  "('e, 'l) MidiHandler_mt32 \<Rightarrow> error + (16 word \<times> ('e, 'l) MidiHandler_mt32)" where
  "GetRemainingFrames h =
     (if uint (last_played_frame h) < FRAMES_PER_BUFFER
        then Inr (word_of_int (FRAMES_PER_BUFFER - uint (last_played_frame h)), h)
      else
        (case Enqueue (play_buffer h) (backstock h) of
           Inl err \<Rightarrow> Inl err
         | Inr bs \<Rightarrow>
             (case Dequeue (playable h) of
                Inl err \<Rightarrow> Inl err
              | Inr (next_buffer, pl) \<Rightarrow>
                  Inr (word_of_int FRAMES_PER_BUFFER,
                       h\<lparr>backstock := bs, playable := pl, play_buffer := next_buffer,
                         total_buffers_played := total_buffers_played h + 1,
                         last_played_frame := 0\<rparr>))))"

text \<open>The body of the loop of \<open>MixerCallBack\<close> after \<open>GetRemainingFrames\<close> has returned.\<close>

definition play_frames ::
  "16 word \<Rightarrow> ('e, 'l) MidiHandler_mt32 \<Rightarrow> error + ('e, 'l) MidiHandler_mt32" where
  "play_frames frames_to_be_played h =
     (case channel h of
        None \<Rightarrow> Inl NullDereference
      | Some c \<Rightarrow>
          Inr (h\<lparr>channel :=
                   Some (AddSamples_s16 (unat frames_to_be_played) (play_buffer h)
                           (unat (last_played_frame h) * 2) c),
                 last_played_frame := last_played_frame h + frames_to_be_played\<rparr>))"

function MixerCallBack ::
  "16 word \<Rightarrow> ('e, 'l) MidiHandler_mt32 \<Rightarrow> error + ('e, 'l) MidiHandler_mt32" where
  "MixerCallBack requested_frames h =
     (if requested_frames = 0 then Inr h
      else
        (case GetRemainingFrames h of
           Inl err \<Rightarrow> Inl err
         | Inr (remaining, h1) \<Rightarrow>
             (let frames_to_be_played = min remaining requested_frames in
              case play_frames frames_to_be_played h1 of
                Inl err \<Rightarrow> Inl err
              | Inr h2 \<Rightarrow> MixerCallBack (requested_frames - frames_to_be_played) h2)))"
  by pat_completeness auto
termination
proof (relation "measure (\<lambda>(r, h). unat r)", goal_cases)
  case 1
  show ?case by simp
next
  case (2 requested_frames h x2 remaining h1 frames h2)
  have nz: "remaining \<noteq> 0"
  proof (cases "uint (last_played_frame h) < FRAMES_PER_BUFFER")
    case True
    with 2 have r: "remaining = word_of_int (1024 - uint (last_played_frame h))"
      and b: "uint (last_played_frame h) < 1024"
      by (auto simp: GetRemainingFrames_def FRAMES_PER_BUFFER_def)
    have "uint remaining = 1024 - uint (last_played_frame h)"
      unfolding r using b by (simp add: uint_sub_if')
    with b show ?thesis by auto
  next
    case False
    with 2 have "remaining = word_of_int 1024"
      by (auto simp: GetRemainingFrames_def FRAMES_PER_BUFFER_def split: sum.splits)
    then show ?thesis by simp
  qed
  from 2 have f: "frames = min remaining requested_frames" by simp
  have le: "frames \<le> requested_frames" unfolding f by simp
  have fnz: "frames \<noteq> 0" unfolding f using nz \<open>requested_frames \<noteq> 0\<close>
    by (simp add: min_def)
  have "unat (requested_frames - frames) = unat requested_frames - unat frames"
    using le by (simp add: unat_sub)
  moreover have "0 < unat frames" using fnz by (simp add: unat_gt_0)
  moreover have "unat frames \<le> unat requested_frames" using le by (simp add: word_le_nat_alt)
  ultimately show ?case by simp
qed

declare MixerCallBack.simps [simp del]
declare populate_backstock.simps [simp del]

subsection \<open>\<open>Close\<close>\<close>

text \<open>
  What \<open>Close\<close> calls outside this file: \<open>renderer.join()\<close> returns when the
  rendering thread has left its loop, and until then the thread may still move
  buffers between the queues (\<open>None\<close>: the thread never leaves); \<open>Reset\<close> of the
  soft limiter.
\<close>

record ('e, 'l) collaborators =
  join :: "('e, 'l) MidiHandler_mt32 \<Rightarrow> ('e, 'l) MidiHandler_mt32 option"
  Reset :: "'l \<Rightarrow> 'l"

text \<open>The loop \<open>while (playable.Size()) play_buffer = playable.Dequeue()\<close>.\<close>

function drain_playable ::
  "('e, 'l) MidiHandler_mt32 \<Rightarrow> error + ('e, 'l) MidiHandler_mt32" where
  "drain_playable h =
     (if Size (playable h) \<noteq> 0 then
        (case Dequeue (playable h) of
           Inl err \<Rightarrow> Inl err
         | Inr (b, pl) \<Rightarrow> drain_playable (h\<lparr>play_buffer := b, playable := pl\<rparr>))
      else Inr h)"
  by pat_completeness auto
termination
  by (relation "measure (\<lambda>h. Size (playable h))")
     (auto simp: Dequeue_def Size_def split: list.splits)

declare drain_playable.simps [simp del]

text \<open>
  \<open>Close\<close>. Closing the synthesizer and freeing its context end in
  \<open>service.reset()\<close>: the handle is null afterwards. \<open>PrintStats\<close> only prints.
\<close>

definition Close ::
  "('e, 'l) collaborators \<Rightarrow> ('e, 'l) MidiHandler_mt32 \<Rightarrow> error + ('e, 'l) MidiHandler_mt32" where
  "Close x h =
     (if \<not> is_open h then Inr h
      else
        (let h1 = h\<lparr>channel := map_option (Enable False) (channel h)\<rparr>;
             h2 = h1\<lparr>keep_rendering := False\<rparr> in
         case (if Size (backstock h2) = 0
               then (case Enqueue (play_buffer h2) (backstock h2) of
                       Inl err \<Rightarrow> Inl err
                     | Inr bs \<Rightarrow> Inr (h2\<lparr>backstock := bs, play_buffer := []\<rparr>))
               else Inr h2) of
           Inl err \<Rightarrow> Inl err
         | Inr h3 \<Rightarrow>
             (case drain_playable h3 of
                Inl err \<Rightarrow> Inl err
              | Inr h4 \<Rightarrow>
                  (case (if renderer_joinable h4
                         then map_option (\<lambda>h'. h'\<lparr>renderer_joinable := False\<rparr>) (join x h4)
                         else Some h4) of
                     None \<Rightarrow> Inl WouldBlock
                   | Some h5 \<Rightarrow>
                       Inr (h5\<lparr>channel := None, service := None,
                               soft_limiter := Reset x (soft_limiter h5),
                               total_buffers_played := 0, last_played_frame := 0,
                               is_open := False\<rparr>)))))"

subsection \<open>\<open>SetMixerLevel\<close>\<close>







section \<open>Notions used to state the properties\<close>

text \<open>
  A sequence of \<open>InDir\<close> calls on one model object, each with its own environment,
  service handle and directory; the result lists, per call, the boolean returned and
  the probes the call did.
\<close>

fun InDir_calls ::
  "('e env \<times> 'e option \<times> string) list \<Rightarrow> Model \<Rightarrow> error + (bool \<times> probe list) list" where
  "InDir_calls [] m = Inr []"
| "InDir_calls ((w, svc, dir) # calls) m =
     (case InDir w svc dir m of
        Inl err \<Rightarrow> Inl err
      | Inr (b, m', probes) \<Rightarrow>
          (case InDir_calls calls m' of
             Inl err \<Rightarrow> Inl err
           | Inr rs \<Rightarrow> Inr ((b, probes) # rs)))"



text \<open>
  Two states of a catalog entry describe the same model when name and ROMs agree.
  \<open>present\<close> is what the checks of \<open>InDir\<close> give for a directory that is not in
  the cache; a cached flag is right when it equals that, and the cache of an entry
  agrees with the environment over a search order when every flag cached for one of
  its directories is right.
\<close>

definition same_roms :: "Model \<Rightarrow> Model \<Rightarrow> bool" where
  "same_roms m m2 =
     (name m = name m2 \<and> pcmFull m = pcmFull m2 \<and> pcmA m = pcmA m2 \<and> pcmB m = pcmB m2
      \<and> ctrlFull m = ctrlFull m2 \<and> ctrlA m = ctrlA m2 \<and> ctrlB m = ctrlB m2)"

definition present :: "'e env \<Rightarrow> string \<Rightarrow> Model \<Rightarrow> bool" where
  "present w dir m =
     (fst (or_else (check_rom w dir (pcmFull m)) (check_both w dir (pcmA m) (pcmB m)))
      \<and> fst (or_else (check_rom w dir (ctrlFull m)) (check_both w dir (ctrlA m) (ctrlB m))))"






text \<open>What \<open>Load\<close> returns and the state it leaves the engine in.\<close>

definition load_outcome :: "bool \<times> Model \<times> 'e option \<Rightarrow> bool \<times> 'e option" where
  "load_outcome r = (fst r, snd (snd r))"


subsection \<open>A small engine and filesystem for the concrete examples\<close>

text \<open>
  The engine context holds at most one PCM image and one control image, named by the
  path they were added from. A file on the disk is a full PCM ROM or a full control
  ROM with the id the engine identifies it by; adding a file replaces the image of
  its kind, and the example disks hold no half ROMs to merge.
\<close>

record synth =
  pcm_image :: "string option"
  control_image :: "string option"

datatype rom_file = PcmFile string | ControlFile string

definition disk_env :: "(string \<times> rom_file) list \<Rightarrow> synth env" where
  "disk_env disk =
     \<lparr>path_exists = (\<lambda>p. map_of disk p \<noteq> None),
      identifyROMFile = (\<lambda>p.
        case map_of disk p of
          None \<Rightarrow> (MT32EMU_RC_OTHER (- 2), \<lparr>control_rom_id = None, pcm_rom_id = None\<rparr>)
        | Some (PcmFile i) \<Rightarrow> (MT32EMU_RC_OK, \<lparr>control_rom_id = None, pcm_rom_id = Some i\<rparr>)
        | Some (ControlFile i) \<Rightarrow>
            (MT32EMU_RC_OK, \<lparr>control_rom_id = Some i, pcm_rom_id = None\<rparr>)),
      addROMFile = (\<lambda>p e.
        case map_of disk p of
          None \<Rightarrow> (MT32EMU_RC_OTHER (- 2), e)
        | Some (PcmFile i) \<Rightarrow> (MT32EMU_RC_ADDED_PCM_ROM, e\<lparr>pcm_image := Some p\<rparr>)
        | Some (ControlFile i) \<Rightarrow>
            (MT32EMU_RC_ADDED_CONTROL_ROM, e\<lparr>control_image := Some p\<rparr>)),
      mergeAndAddROMFiles = (\<lambda>a b e. (MT32EMU_RC_OTHER (- 2), e))\<rparr>"

definition no_roms :: synth where
  "no_roms = \<lparr>pcm_image = None, control_image = None\<rparr>"

text \<open>Directory \<open>a/\<close> holds the MT-32 pair, directory \<open>b/\<close> the CM-32L pair.\<close>

definition two_dirs_disk :: "(string \<times> rom_file) list" where
  "two_dirs_disk =
     [(''a/MT32_PCM.ROM'', PcmFile ''pcm_mt32''),
      (''a/MT32_CONTROL.ROM'', ControlFile ''ctrl_mt32_1_07''),
      (''b/CM32L_PCM.ROM'', PcmFile ''pcm_cm32l''),
      (''b/CM32L_CONTROL.ROM'', ControlFile ''ctrl_cm32l_1_02'')]"

text \<open>
  Directory \<open>a/\<close> holds a PCM ROM under both CM-32L file names: the file named as
  the control ROM is a copy of the PCM ROM.
\<close>

definition misnamed_disk :: "(string \<times> rom_file) list" where
  "misnamed_disk =
     [(''a/CM32L_PCM.ROM'', PcmFile ''pcm_cm32l''),
      (''a/CM32L_CONTROL.ROM'', PcmFile ''pcm_cm32l'')]"

text \<open>Directory \<open>a/\<close> holds the misnamed pair, directory \<open>b/\<close> a proper CM-32L pair.\<close>

definition retry_disk :: "(string \<times> rom_file) list" where
  "retry_disk =
     [(''a/CM32L_PCM.ROM'', PcmFile ''pcm_cm32l''),
      (''a/CM32L_CONTROL.ROM'', PcmFile ''pcm_cm32l''),
      (''b/CM32L_PCM.ROM'', PcmFile ''pcm_cm32l''),
      (''b/CM32L_CONTROL.ROM'', ControlFile ''ctrl_cm32l_1_02'')]"

text \<open>
  A handler that is not open, with empty queues of capacity three, and the same
  handler during playback: 624 of the 1024 frames of the current buffer are played
  and three rendered buffers wait in the playable queue.
\<close>

definition silence :: "16 word \<Rightarrow> buffer" where
  "silence v = replicate (nat SAMPLES_PER_BUFFER) v"

definition closed_handler :: "(synth, unit) MidiHandler_mt32" where
  "closed_handler =
     \<lparr>channel = None, service = None, soft_limiter = (),
      backstock = \<lparr>queue = [], capacity = 3\<rparr>,
      playable = \<lparr>queue = [], capacity = 3\<rparr>,
      play_buffer = [], renderer_joinable = False, keep_rendering = False,
      total_buffers_played = 0, last_played_frame = 0, is_open = False\<rparr>"

definition playing_handler :: "(synth, unit) MidiHandler_mt32" where
  "playing_handler =
     closed_handler
       \<lparr>channel := Some \<lparr>enabled = True, added = []\<rparr>,
        service := Some no_roms,
        playable := \<lparr>queue = [silence 1, silence 2, silence 3], capacity = 3\<rparr>,
        play_buffer := silence 0,
        renderer_joinable := True, keep_rendering := True,
        total_buffers_played := 7, last_played_frame := 624, is_open := True\<rparr>"

text \<open>The rendering thread leaves at once and the limiter has no state.\<close>

definition idle_renderer :: "(synth, unit) collaborators" where
  "idle_renderer = \<lparr>join = Some, Reset = id\<rparr>"





text \<open>
  What a playback request leaves behind: buffers played in full so far, frames
  played of the current buffer, buffers in the backstock, and the frame counts
  handed to the mixer.
\<close>

definition frames_added :: "('e, 'l) MidiHandler_mt32 \<Rightarrow> nat list" where
  "frames_added h = (case channel h of None \<Rightarrow> [] | Some c \<Rightarrow> map fst (added c))"

definition playback_summary ::
  "('e, 'l) MidiHandler_mt32 \<Rightarrow> 32 word \<times> 16 word \<times> nat \<times> nat list" where
  "playback_summary h =
     (total_buffers_played h, last_played_frame h, Size (backstock h), frames_added h)"

definition backstock_size :: "('e, 'l) MidiHandler_mt32 \<Rightarrow> nat" where
  "backstock_size h = Size (backstock h)"

section \<open>Properties\<close>

subsection \<open>Versioned ROM ids\<close>

lemma find_first_of_None: "find_first_of s c = None \<longleftrightarrow> count_list s c = 0"
  by (induction s) auto

lemma find_last_of_None: "find_last_of s c = None \<longleftrightarrow> count_list s c = 0"
  by (induction s) (auto split: option.splits)

lemma find_first_eq_last: "find_first_of s c = find_last_of s c \<longleftrightarrow> count_list s c < 2"
proof (induction s)
  case Nil
  show ?case by simp
next
  case (Cons x s)
  show ?case
  proof (cases "x = c")
    case True
    have "find_last_of s c = None \<longleftrightarrow> count_list s c = 0" by (rule find_last_of_None)
    with True show ?thesis by (auto split: option.splits)
  next
    case False
    have "map_option Suc (find_first_of s c) = map_option Suc (find_last_of s c)
          \<longleftrightarrow> find_first_of s c = find_last_of s c"
      by (cases "find_first_of s c"; cases "find_last_of s c") auto
    moreover have "(case find_last_of s c of None \<Rightarrow> None | Some i \<Rightarrow> Some (Suc i))
                   = map_option Suc (find_last_of s c)"
      by (simp split: option.splits)
    ultimately show ?thesis using False Cons.IH by (simp split: option.splits)
  qed
qed

text \<open>
  C10. \<open>is_versioned\<close> is true exactly when the id holds at least two underscores.
  A ROM whose id holds fewer (such as \<open>pcm_mt32\<close>) passes \<open>check_rom\<close> as soon as
  its file exists and the engine identifies it, whatever ids the engine reports.
\<close>

theorem is_versioned_two_underscores:
  "(is_versioned r \<longleftrightarrow> 2 \<le> count_list (rom_id r) CHR ''_'')
   \<and> \<not> is_versioned mt32_nover_pcm_f
   \<and> (count_list (rom_id r) CHR ''_'' < 2 \<longrightarrow>
        path_exists w (dir @ filename r) \<longrightarrow>
        fst (identifyROMFile w (dir @ filename r)) = MT32EMU_RC_OK \<longrightarrow>
        fst (check_rom w dir (Some r)))"
proof -
  have v: "is_versioned r \<longleftrightarrow> 2 \<le> count_list (rom_id r) CHR ''_''" for r
    unfolding is_versioned_def using find_first_eq_last [of "rom_id r" "CHR ''_''"] by auto
  have "\<not> is_versioned mt32_nover_pcm_f"
    by (simp add: v mt32_nover_pcm_f_def)
  moreover have "fst (check_rom w dir (Some r))"
    if "count_list (rom_id r) CHR ''_'' < 2" "path_exists w (dir @ filename r)"
       "fst (identifyROMFile w (dir @ filename r)) = MT32EMU_RC_OK"
    using that by (auto simp: check_rom_def v Let_def split: prod.splits)
  ultimately show ?thesis using v by blast
qed

theorem is_versioned_two_underscores_witness:
  "fst (check_rom (disk_env two_dirs_disk) ''a/'' (Some mt32_nover_pcm_f))
   \<and> count_list (rom_id mt32_nover_pcm_f) CHR ''_'' < 2
   \<and> is_versioned mt32_ctrl_1_07_a"
proof -
  have c: "count_list (rom_id mt32_nover_pcm_f) CHR ''_'' < 2"
    by (simp add: mt32_nover_pcm_f_def)
  have p: "path_exists (disk_env two_dirs_disk) (''a/'' @ filename mt32_nover_pcm_f)"
    by (simp add: disk_env_def two_dirs_disk_def mt32_nover_pcm_f_def)
  have i: "fst (identifyROMFile (disk_env two_dirs_disk) (''a/'' @ filename mt32_nover_pcm_f))
           = MT32EMU_RC_OK"
    by (simp add: disk_env_def two_dirs_disk_def mt32_nover_pcm_f_def)
  have "2 \<le> count_list (rom_id mt32_ctrl_1_07_a) CHR ''_''"
    by (simp add: mt32_ctrl_1_07_a_def)
  with c p i
    is_versioned_two_underscores [of mt32_nover_pcm_f "disk_env two_dirs_disk" "''a/''"]
    is_versioned_two_underscores [of mt32_ctrl_1_07_a "disk_env two_dirs_disk" "''a/''"]
  show ?thesis by blast
qed

subsection \<open>Construction of a model\<close>

lemma catalog_constructed:
  "Model_Model ''mt32'' (Some mt32_nover_pcm_f) None None (Some mt32_nover_ctrl_f) None None
     = Inr mt32_nover_model"
  "Model_Model ''mt32_1_04'' (Some mt32_pcm_nover_f) (Some mt32_pcm_nover_l)
       (Some mt32_pcm_nover_h) None (Some mt32_ctrl_1_04_a) (Some mt32_ctrl_1_04_b)
     = Inr mt32_1_04_model"
  "Model_Model ''mt32_1_05'' (Some mt32_pcm_nover_f) (Some mt32_pcm_nover_l)
       (Some mt32_pcm_nover_h) None (Some mt32_ctrl_1_05_a) (Some mt32_ctrl_1_05_b)
     = Inr mt32_1_05_model"
  "Model_Model ''mt32_1_06'' (Some mt32_pcm_nover_f) (Some mt32_pcm_nover_l)
       (Some mt32_pcm_nover_h) None (Some mt32_ctrl_1_06_a) (Some mt32_ctrl_1_06_b)
     = Inr mt32_1_06_model"
  "Model_Model ''mt32_1_07'' (Some mt32_pcm_nover_f) (Some mt32_pcm_nover_l)
       (Some mt32_pcm_nover_h) None (Some mt32_ctrl_1_07_a) (Some mt32_ctrl_1_07_b)
     = Inr mt32_1_07_model"
  "Model_Model ''mt32_bluer'' (Some mt32_pcm_nover_f) (Some mt32_pcm_nover_l)
       (Some mt32_pcm_nover_h) None (Some mt32_ctrl_bluer_a) (Some mt32_ctrl_bluer_b)
     = Inr mt32_bluer_model"
  "Model_Model ''mt32_2_04'' (Some mt32_pcm_nover_f) (Some mt32_pcm_nover_l)
       (Some mt32_pcm_nover_h) None (Some mt32_ctrl_2_04_a) (Some mt32_ctrl_2_04_b)
     = Inr mt32_2_04_model"
  "Model_Model ''cm32l'' (Some cm32l_nover_pcm_f) None None (Some cm32l_nover_ctrl_f) None None
     = Inr cm32l_nover_model"
  "Model_Model ''cm32l_1_00'' (Some cm32l_nover_pcm_f) (Some cm32l_pcm_nover_l)
       (Some cm32l_pcm_nover_h) (Some cm32l_ctrl_1_00_f) None None
     = Inr cm32l_1_00_model"
  "Model_Model ''cm32l_1_02'' (Some cm32l_nover_pcm_f) (Some cm32l_pcm_nover_l)
       (Some cm32l_pcm_nover_h) (Some cm32l_ctrl_1_02_f) None None
     = Inr cm32l_1_02_model"
  by (simp_all add: Model_Model_def Model_init_def mt32_nover_model_def mt32_1_04_model_def
      mt32_1_05_model_def mt32_1_06_model_def mt32_1_07_model_def mt32_bluer_model_def
      mt32_2_04_model_def cm32l_nover_model_def cm32l_1_00_model_def cm32l_1_02_model_def)

text \<open>
  C5. The constructor fails its assertion when the PCM role has neither a full ROM
  nor both halves, and likewise for the control role; a model that the constructor
  returns has, for each role, the full ROM or both halves.
\<close>

theorem Model_Model_requires_roms:
  "(\<not> (pcm_full \<noteq> None \<or> (pcm_a \<noteq> None \<and> pcm_b \<noteq> None)) \<longrightarrow>
      Model_Model n pcm_full pcm_a pcm_b ctrl_full ctrl_a ctrl_b = Inl AssertionFailed)
   \<and> (\<not> (ctrl_full \<noteq> None \<or> (ctrl_a \<noteq> None \<and> ctrl_b \<noteq> None)) \<longrightarrow>
      Model_Model n pcm_full pcm_a pcm_b ctrl_full ctrl_a ctrl_b = Inl AssertionFailed)
   \<and> (Model_Model n pcm_full pcm_a pcm_b ctrl_full ctrl_a ctrl_b = Inr m \<longrightarrow>
        (pcmFull m \<noteq> None \<or> (pcmA m \<noteq> None \<and> pcmB m \<noteq> None))
      \<and> (ctrlFull m \<noteq> None \<or> (ctrlA m \<noteq> None \<and> ctrlB m \<noteq> None)))"
  by (auto simp: Model_Model_def Model_init_def Let_def split: if_splits)

theorem Model_Model_requires_roms_witness:
  "Model_Model ''mt32'' None (Some mt32_pcm_nover_l) None (Some mt32_nover_ctrl_f) None None
     = Inl AssertionFailed
   \<and> Model_Model ''mt32'' (Some mt32_nover_pcm_f) None None None None (Some mt32_ctrl_1_04_b)
     = Inl AssertionFailed
   \<and> Model_Model ''mt32_1_04'' (Some mt32_pcm_nover_f) (Some mt32_pcm_nover_l)
       (Some mt32_pcm_nover_h) None (Some mt32_ctrl_1_04_a) (Some mt32_ctrl_1_04_b)
     = Inr mt32_1_04_model
   \<and> pcmFull mt32_1_04_model \<noteq> None
   \<and> ctrlFull mt32_1_04_model = None
   \<and> ctrlA mt32_1_04_model \<noteq> None \<and> ctrlB mt32_1_04_model \<noteq> None"
  using
    Model_Model_requires_roms [of None "Some mt32_pcm_nover_l" None "''mt32''"
      "Some mt32_nover_ctrl_f" None None]
    Model_Model_requires_roms [of "Some mt32_nover_pcm_f" None None "''mt32''"
      None None "Some mt32_ctrl_1_04_b"]
    Model_Model_requires_roms [of "Some mt32_pcm_nover_f" "Some mt32_pcm_nover_l"
      "Some mt32_pcm_nover_h" "''mt32_1_04''" None "Some mt32_ctrl_1_04_a"
      "Some mt32_ctrl_1_04_b" mt32_1_04_model]
    catalog_constructed(2)
  by (simp add: mt32_1_04_model_def Model_init_def)

subsection \<open>The presence cache\<close>

lemma InDir_caches:
  "InDir w svc d m = Inr (b, m', t) \<Longrightarrow> inDir m' d = Some b"
  by (auto simp: InDir_def Let_def split: if_splits option.splits)

lemma InDir_keeps:
  "InDir w svc d m = Inr (b, m', t) \<Longrightarrow> inDir m d' = Some b' \<Longrightarrow> inDir m' d' = Some b'"
  by (auto simp: InDir_def Let_def split: if_splits option.splits)

lemma InDir_cached:
  "inDir m d = Some b \<Longrightarrow> InDir w svc d m = Inr r \<Longrightarrow> r = (b, m, [])"
  by (auto simp: InDir_def Let_def split: if_splits option.splits)

lemma InDir_calls_cached:
  "inDir m d = Some b \<Longrightarrow> InDir_calls calls m = Inr rs \<Longrightarrow> j < length calls \<Longrightarrow>
   snd (snd (calls ! j)) = d \<Longrightarrow> rs ! j = (b, [])"
proof (induction calls arbitrary: m rs j)
  case Nil
  then show ?case by simp
next
  case (Cons c calls)
  obtain w svc dir where c: "c = (w, svc, dir)" by (cases c) auto
  from Cons.prems(2) c obtain b1 m1 t1 rs1 where
    1: "InDir w svc dir m = Inr (b1, m1, t1)" and 2: "InDir_calls calls m1 = Inr rs1"
    and rs: "rs = (b1, t1) # rs1"
    by (auto split: sum.splits)
  show ?case
  proof (cases j)
    case 0
    with Cons.prems c have "dir = d" by simp
    with 1 Cons.prems(1) have "(b1, m1, t1) = (b, m, [])" using InDir_cached by blast
    with rs 0 show ?thesis by simp
  next
    case (Suc k)
    from 1 Cons.prems(1) have "inDir m1 d = Some b" by (rule InDir_keeps)
    from Cons.IH [OF this 2, of k] Cons.prems Suc rs show ?thesis by simp
  qed
qed

text \<open>
  C3. In any sequence of \<open>InDir\<close> calls on one model, a call for a directory that an
  earlier call of the sequence was made for returns the boolean of that earlier call
  and does no filesystem or identification work, whatever the environment is by
  then: the work is done at most once per model and directory.
\<close>

theorem InDir_idempotent_cached:
  "InDir_calls calls m = Inr rs \<Longrightarrow> i < j \<Longrightarrow> j < length calls \<Longrightarrow>
   snd (snd (calls ! i)) = snd (snd (calls ! j)) \<Longrightarrow>
   fst (rs ! j) = fst (rs ! i) \<and> snd (rs ! j) = []"
proof (induction calls arbitrary: m rs i j)
  case Nil
  then show ?case by simp
next
  case (Cons c calls)
  obtain w svc dir where c: "c = (w, svc, dir)" by (cases c) auto
  from Cons.prems(1) c obtain b1 m1 t1 rs1 where
    1: "InDir w svc dir m = Inr (b1, m1, t1)" and 2: "InDir_calls calls m1 = Inr rs1"
    and rs: "rs = (b1, t1) # rs1"
    by (auto split: sum.splits)
  from Cons.prems obtain k where j: "j = Suc k" by (cases j) auto
  show ?case
  proof (cases i)
    case 0
    from 1 have "inDir m1 dir = Some b1" by (rule InDir_caches)
    from InDir_calls_cached [OF this 2, of k] Cons.prems 0 j c
    have "rs1 ! k = (b1, [])" by simp
    with rs 0 j show ?thesis by simp
  next
    case (Suc i')
    from Cons.IH [OF 2, of i' k] Cons.prems Suc j rs show ?thesis by simp
  qed
qed

theorem InDir_idempotent_cached_witness:
  "InDir_calls [(disk_env two_dirs_disk, Some no_roms, ''a/''),
                (disk_env two_dirs_disk, Some no_roms, ''b/''),
                (disk_env [], Some no_roms, ''a/'')] mt32_nover_model
     = Inr [(True, [PathExists ''a/MT32_PCM.ROM'', IdentifyROMFile ''a/MT32_PCM.ROM'',
                    PathExists ''a/MT32_CONTROL.ROM'', IdentifyROMFile ''a/MT32_CONTROL.ROM'']),
            (False, [PathExists ''b/MT32_PCM.ROM'', PathExists ''b/MT32_CONTROL.ROM'']),
            (True, [])]
   \<and> fst ([(True, [PathExists ''a/MT32_PCM.ROM'', IdentifyROMFile ''a/MT32_PCM.ROM'',
                    PathExists ''a/MT32_CONTROL.ROM'', IdentifyROMFile ''a/MT32_CONTROL.ROM'']),
            (False, [PathExists ''b/MT32_PCM.ROM'', PathExists ''b/MT32_CONTROL.ROM'']),
            (True, [])] ! 2) = True
   \<and> snd ([(True, [PathExists ''a/MT32_PCM.ROM'', IdentifyROMFile ''a/MT32_PCM.ROM'',
                    PathExists ''a/MT32_CONTROL.ROM'', IdentifyROMFile ''a/MT32_CONTROL.ROM'']),
            (False, [PathExists ''b/MT32_PCM.ROM'', PathExists ''b/MT32_CONTROL.ROM'']),
            (True, [])] ! 2) = []"
proof -
  have e: "InDir_calls [(disk_env two_dirs_disk, Some no_roms, ''a/''),
                (disk_env two_dirs_disk, Some no_roms, ''b/''),
                (disk_env [], Some no_roms, ''a/'')] mt32_nover_model
     = Inr [(True, [PathExists ''a/MT32_PCM.ROM'', IdentifyROMFile ''a/MT32_PCM.ROM'',
                    PathExists ''a/MT32_CONTROL.ROM'', IdentifyROMFile ''a/MT32_CONTROL.ROM'']),
            (False, [PathExists ''b/MT32_PCM.ROM'', PathExists ''b/MT32_CONTROL.ROM'']),
            (True, [])]"
    by (simp add: InDir_def check_rom_def check_both_def or_else_def and_also_def
        disk_env_def two_dirs_disk_def mt32_nover_model_def Model_init_def
        mt32_nover_pcm_f_def mt32_nover_ctrl_f_def is_versioned_def Let_def)
  from InDir_idempotent_cached [OF e, of 0 2] e show ?thesis by simp
qed

subsection \<open>Closing a handler that is not open\<close>

text \<open>
  C8. \<open>Close\<close> on a handler that is not open returns and leaves every member as it
  was; and whenever \<open>Close\<close> has returned, a second \<open>Close\<close> right after it
  returns and changes nothing.
\<close>

theorem Close_not_open_noop:
  "(\<not> is_open h \<longrightarrow> Close x h = Inr h)
   \<and> (Close x h = Inr h' \<longrightarrow> Close x h' = Inr h')"
proof -
  have a: "Close x h = Inr h" if "\<not> is_open h" for h :: "('a, 'b) MidiHandler_mt32"
    using that by (simp add: Close_def)
  have "\<not> is_open h'" if "Close x h = Inr h'"
    using that
    by (auto simp: Close_def Let_def split: if_splits sum.splits option.splits)
  with a show ?thesis by blast
qed

theorem Close_not_open_noop_witness:
  "Close idle_renderer closed_handler = Inr closed_handler
   \<and> Close idle_renderer playing_handler =
       Inr (closed_handler\<lparr>backstock := \<lparr>queue = [silence 0], capacity = 3\<rparr>,
                          play_buffer := silence 3\<rparr>)
   \<and> Close idle_renderer
       (closed_handler\<lparr>backstock := \<lparr>queue = [silence 0], capacity = 3\<rparr>,
                       play_buffer := silence 3\<rparr>) =
       Inr (closed_handler\<lparr>backstock := \<lparr>queue = [silence 0], capacity = 3\<rparr>,
                          play_buffer := silence 3\<rparr>)"
proof -
  have c: "\<not> is_open closed_handler" by (simp add: closed_handler_def)
  have p: "Close idle_renderer playing_handler =
       Inr (closed_handler\<lparr>backstock := \<lparr>queue = [silence 0], capacity = 3\<rparr>,
                          play_buffer := silence 3\<rparr>)"
    by (simp add: Close_def playing_handler_def closed_handler_def idle_renderer_def
        drain_playable.simps Enqueue_def Dequeue_def Size_def Enable_def Let_def)
  from c p Close_not_open_noop [of closed_handler idle_renderer]
    Close_not_open_noop [of playing_handler idle_renderer]
  show ?thesis by simp
qed

subsection \<open>Populating the backstock\<close>

lemma populate_backstock_fills:
  "Size q < capacity q \<Longrightarrow>
   populate_backstock b q = Inr (q\<lparr>queue := queue q @ replicate (capacity q - 1 - Size q) b\<rparr>)"
proof (induction b q rule: populate_backstock.induct)
  case (1 b q)
  show ?case
  proof (cases "Size q < capacity_minus_one q")
    case True
    with 1(2) have lt: "Size q < capacity q - 1"
      by (simp add: capacity_minus_one_def MaxCapacity_def split: if_splits)
    then have enq: "Enqueue b q = Inr (q\<lparr>queue := queue q @ [b]\<rparr>)"
      by (simp add: Enqueue_def)
    have sz: "Size (q\<lparr>queue := queue q @ [b]\<rparr>) < capacity (q\<lparr>queue := queue q @ [b]\<rparr>)"
      using lt by (simp add: Size_def)
    have "populate_backstock b (q\<lparr>queue := queue q @ [b]\<rparr>) =
          Inr (q\<lparr>queue := (queue q @ [b]) @ replicate (capacity q - 1 - Suc (Size q)) b\<rparr>)"
      using 1(1) [OF True enq sz] by (simp add: Size_def)
    moreover have "[b] @ replicate (capacity q - 1 - Suc (Size q)) b
                   = replicate (capacity q - 1 - Size q) b"
      using lt by (metis Suc_diff_Suc append_Cons append_Nil replicate_Suc)
    ultimately show ?thesis
      using True enq by (subst populate_backstock.simps) simp
  next
    case False
    with 1(2) have "Size q = capacity q - 1"
      by (simp add: capacity_minus_one_def MaxCapacity_def split: if_splits)
    with False show ?thesis
      by (subst populate_backstock.simps) simp
  qed
qed

text \<open>
  C6, as the code has it. When the backstock has room, the first part of \<open>Render\<close>
  fills it to its full capacity: the loop adds copies of the new buffer until
  capacity - 1 buffers are held, the buffer itself is moved in last, and the
  assertion \<open>Size() == MaxCapacity()\<close> holds.
\<close>

theorem Render_populate_fills_backstock:
  "Size (backstock h) < MaxCapacity (backstock h) \<Longrightarrow>
   Render_populate h =
     Inr (h\<lparr>backstock := (backstock h)\<lparr>queue := queue (backstock h) @
            replicate (MaxCapacity (backstock h) - Size (backstock h))
              (replicate (nat SAMPLES_PER_BUFFER) 0)\<rparr>\<rparr>)
   \<and> map_sum id backstock_size (Render_populate h) = Inr (MaxCapacity (backstock h))"
proof -
  assume a: "Size (backstock h) < MaxCapacity (backstock h)"
  let ?b = "replicate (nat SAMPLES_PER_BUFFER) (0 :: 16 word)"
  let ?q = "backstock h"
  from a have p: "populate_backstock ?b ?q =
      Inr (?q\<lparr>queue := queue ?q @ replicate (capacity ?q - 1 - Size ?q) ?b\<rparr>)"
    by (simp add: populate_backstock_fills MaxCapacity_def)
  have r: "replicate (capacity ?q - 1 - Size ?q) ?b @ [?b] = replicate (capacity ?q - Size ?q) ?b"
    using a unfolding MaxCapacity_def
    by (metis Suc_diff_Suc diff_diff_left plus_1_eq_Suc replicate_Suc replicate_append_same)
  have "Render_populate h =
     Inr (h\<lparr>backstock := ?q\<lparr>queue := queue ?q @ replicate (MaxCapacity ?q - Size ?q) ?b\<rparr>\<rparr>)"
    using a r unfolding Render_populate_def Let_def p
    by (simp add: Enqueue_def Size_def MaxCapacity_def)
  moreover have "map_sum id backstock_size (Render_populate h) = Inr (MaxCapacity (backstock h))"
    using a unfolding calculation by (simp add: backstock_size_def Size_def MaxCapacity_def)
  ultimately show ?thesis by blast
qed

theorem Render_populate_fills_backstock_witness:
  "Size (backstock closed_handler) < MaxCapacity (backstock closed_handler)
   \<and> map_sum id backstock (Render_populate closed_handler) =
       Inr \<lparr>queue = [silence 0, silence 0, silence 0], capacity = 3\<rparr>"
proof -
  have a: "Size (backstock closed_handler) < MaxCapacity (backstock closed_handler)"
    by (simp add: closed_handler_def Size_def MaxCapacity_def)
  have "replicate (3::nat) (silence 0) = [silence 0, silence 0, silence 0]"
    by (simp add: numeral_3_eq_3)
  with Render_populate_fills_backstock [OF a] a show ?thesis
    by (simp add: closed_handler_def Size_def MaxCapacity_def silence_def)
qed

text \<open>
  C6 as stated fails: from an empty backstock of capacity three, the backstock holds
  three buffers after the step, not two.
\<close>

theorem Render_populate_counterexample:
  "map_sum id backstock_size (Render_populate closed_handler)
     = Inr (MaxCapacity (backstock closed_handler))
   \<and> MaxCapacity (backstock closed_handler) \<noteq> MaxCapacity (backstock closed_handler) - 1"
  by (simp add: Render_populate_def closed_handler_def populate_backstock.simps Enqueue_def
      Size_def MaxCapacity_def capacity_minus_one_def backstock_size_def Let_def)

subsection \<open>Playback across buffer boundaries\<close>

text \<open>
  C7, as the code has it. A request for 2500 frames with 400 frames left in the
  current buffer plays those 400, then takes three buffers from the playable queue
  and returns three spent buffers to the backstock (the current one and the two
  played in full), and ends with 52 frames played of the third buffer taken:
  400 + 1024 + 1024 + 52 = 2500.
\<close>

theorem MixerCallBack_2500_frames:
  assumes "last_played_frame h = 624" and "channel h = Some c"
    and "queue (playable h) = b1 # b2 # b3 # rest"
    and "Size (backstock h) + 3 \<le> capacity (backstock h)"
  shows "MixerCallBack 2500 h =
     Inr (h\<lparr>channel := Some (c\<lparr>added := added c @
                 [(400, play_buffer h, 1248), (1024, b1, 0), (1024, b2, 0), (52, b3, 0)]\<rparr>),
            backstock := (backstock h)\<lparr>queue := queue (backstock h) @ [play_buffer h, b1, b2]\<rparr>,
            playable := (playable h)\<lparr>queue := rest\<rparr>,
            play_buffer := b3,
            total_buffers_played := total_buffers_played h + 3,
            last_played_frame := 52\<rparr>)"
  using assms
  apply (subst MixerCallBack.simps)
  apply (simp add: GetRemainingFrames_def play_frames_def FRAMES_PER_BUFFER_def
      AddSamples_s16_def Enqueue_def Dequeue_def Size_def)
  apply (subst MixerCallBack.simps)
  apply (simp add: GetRemainingFrames_def play_frames_def FRAMES_PER_BUFFER_def
      AddSamples_s16_def Enqueue_def Dequeue_def Size_def)
  apply (subst MixerCallBack.simps)
  apply (simp add: GetRemainingFrames_def play_frames_def FRAMES_PER_BUFFER_def
      AddSamples_s16_def Enqueue_def Dequeue_def Size_def)
  apply (subst MixerCallBack.simps)
  apply (simp add: GetRemainingFrames_def play_frames_def FRAMES_PER_BUFFER_def
      AddSamples_s16_def Enqueue_def Dequeue_def Size_def)
  apply (subst MixerCallBack.simps)
  apply (simp add: GetRemainingFrames_def play_frames_def FRAMES_PER_BUFFER_def
      AddSamples_s16_def Enqueue_def Dequeue_def Size_def)
  done

theorem MixerCallBack_2500_frames_witness:
  "last_played_frame playing_handler = 624
   \<and> queue (playable playing_handler) = [silence 1, silence 2, silence 3]
   \<and> map_sum id last_played_frame (MixerCallBack 2500 playing_handler) = Inr 52
   \<and> map_sum id play_buffer (MixerCallBack 2500 playing_handler) = Inr (silence 3)
   \<and> map_sum id total_buffers_played (MixerCallBack 2500 playing_handler) = Inr 10"
proof -
  have 1: "last_played_frame playing_handler = 624"
    and 2: "channel playing_handler = Some \<lparr>enabled = True, added = []\<rparr>"
    and 3: "queue (playable playing_handler) = silence 1 # silence 2 # silence 3 # []"
    and 4: "Size (backstock playing_handler) + 3 \<le> capacity (backstock playing_handler)"
    by (simp_all add: playing_handler_def closed_handler_def Size_def)
  from MixerCallBack_2500_frames [OF 1 2 3 4] 1 3 show ?thesis
    by (simp add: playing_handler_def closed_handler_def)
qed

text \<open>
  C7 as stated fails: in the scenario the count of buffers played rises by three,
  not two, three buffers reach the backstock, and the frame offset in the last
  buffer is 52, not 1896.
\<close>

theorem MixerCallBack_2500_counterexample:
  "map_sum id playback_summary (MixerCallBack 2500 playing_handler)
     = Inr (7 + 3, 52, 3, [400, 1024, 1024, 52])"
  apply (subst MixerCallBack.simps)
  apply (simp add: GetRemainingFrames_def play_frames_def FRAMES_PER_BUFFER_def
      AddSamples_s16_def Enqueue_def Dequeue_def Size_def playing_handler_def closed_handler_def)
  apply (subst MixerCallBack.simps)
  apply (simp add: GetRemainingFrames_def play_frames_def FRAMES_PER_BUFFER_def
      AddSamples_s16_def Enqueue_def Dequeue_def Size_def)
  apply (subst MixerCallBack.simps)
  apply (simp add: GetRemainingFrames_def play_frames_def FRAMES_PER_BUFFER_def
      AddSamples_s16_def Enqueue_def Dequeue_def Size_def)
  apply (subst MixerCallBack.simps)
  apply (simp add: GetRemainingFrames_def play_frames_def FRAMES_PER_BUFFER_def
      AddSamples_s16_def Enqueue_def Dequeue_def Size_def)
  apply (subst MixerCallBack.simps)
  apply (simp add: playback_summary_def frames_added_def Size_def)
  done

subsection \<open>Resolution\<close>

text \<open>Unfolding sets for the concrete examples.\<close>

lemmas rom_defs =
  mt32_nover_pcm_f_def mt32_nover_ctrl_f_def cm32l_nover_pcm_f_def cm32l_nover_ctrl_f_def
  mt32_pcm_nover_f_def mt32_pcm_nover_l_def mt32_pcm_nover_h_def
  mt32_ctrl_1_04_a_def mt32_ctrl_1_04_b_def mt32_ctrl_1_05_a_def mt32_ctrl_1_05_b_def
  mt32_ctrl_1_06_a_def mt32_ctrl_1_06_b_def mt32_ctrl_1_07_a_def mt32_ctrl_1_07_b_def
  mt32_ctrl_bluer_a_def mt32_ctrl_bluer_b_def mt32_ctrl_2_04_a_def mt32_ctrl_2_04_b_def
  cm32l_pcm_nover_l_def cm32l_pcm_nover_h_def cm32l_ctrl_1_00_f_def cm32l_ctrl_1_02_f_def

lemmas model_defs =
  Model_init_def mt32_nover_model_def mt32_1_04_model_def mt32_1_05_model_def
  mt32_1_06_model_def mt32_1_07_model_def mt32_bluer_model_def mt32_2_04_model_def
  cm32l_nover_model_def cm32l_1_00_model_def cm32l_1_02_model_def

lemmas resolver_defs =
  InDir_def check_rom_def check_both_def or_else_def and_also_def is_versioned_def
  Load_def loaded_pcm_def loaded_ctrl_def load_rom_def load_pair_def Name_def Let_def
  disk_env_def no_roms_def











lemma same_roms_refl: "same_roms m m"
  by (simp add: same_roms_def)




















subsection \<open>Loading both roles\<close>

lemma InDir_again:
  "InDir w (Some e) d m = Inr (b, m1, t) \<Longrightarrow> InDir w (Some e') d m1 = Inr (b, m1, [])"
  by (auto simp: InDir_def Let_def split: if_splits option.splits)

text \<open>
  C4, as the code has it. When a model is present in a directory and the engine does
  not load both roles from it, \<open>Load\<close> returns false, the loop goes on to the next
  directory, and after the last directory to the next model of the catalog. The
  engine is left in the state the add calls have put it in: nothing is taken back.
\<close>

theorem Load_partial_failure:
  assumes "InDir w (Some e) dir m = Inr (True, m1, probes)"
    and "loaded_pcm w dir m1 e = (lp, e1)"
    and "loaded_ctrl w dir m1 e1 = (lc, e2)"
    and "\<not> (lp \<and> lc)"
  shows "Load w (Some e) dir m = Inr (False, m1, Some e2)
     \<and> load_dirs w (Some e) m (dir # rom_dirs) = load_dirs w (Some e2) m1 rom_dirs
     \<and> (selected_model = ''auto'' \<or> selected_model = Name m \<longrightarrow>
          load_model w (Some e) selected_model [dir] (m # models) =
            (case load_model w (Some e2) selected_model [dir] models of
               Inl err \<Rightarrow> Inl err
             | Inr (r, models', svc') \<Rightarrow> Inr (r, m1 # models', svc')))"
proof -
  have again: "InDir w (Some e) dir m1 = Inr (True, m1, [])"
    using assms(1) by (rule InDir_again)
  have 1: "Load w (Some e) dir m = Inr (False, m1, Some e2)"
    using assms by (simp add: Load_def)
  have l1: "Load w (Some e) dir m1 = Inr (False, m1, Some e2)"
    using assms again by (simp add: Load_def)
  have 2: "load_dirs w (Some e) m (dir # ds) = load_dirs w (Some e2) m1 ds" for ds
    using assms(1) l1 by simp
  have 3: "load_model w (Some e) selected_model [dir] (m # models) =
            (case load_model w (Some e2) selected_model [dir] models of
               Inl err \<Rightarrow> Inl err
             | Inr (r, models', svc') \<Rightarrow> Inr (r, m1 # models', svc'))"
    if "selected_model = ''auto'' \<or> selected_model = Name m"
    using that 2 [of "[]"] unfolding load_model_def
    by (simp del: load_dirs.simps add: load_dirs.simps(1) Let_def)
  from 1 2 3 show ?thesis by blast
qed

theorem Load_partial_failure_witness:
  "map_sum id load_outcome
     (Load (disk_env retry_disk) (Some no_roms) ''a/'' cm32l_nover_model)
     = Inr (False, Some \<lparr>pcm_image = Some ''a/CM32L_CONTROL.ROM'', control_image = None\<rparr>)
   \<and> map_sum id fst
     (load_dirs (disk_env retry_disk) (Some no_roms) cm32l_nover_model [''a/'', ''b/''])
     = Inr (Some ''b/'')"
proof -
  let ?w = "disk_env retry_disk"
  let ?m1 = "cm32l_nover_model\<lparr>inDir := (inDir cm32l_nover_model)(''a/'' \<mapsto> True)\<rparr>"
  let ?e1 = "\<lparr>pcm_image = Some ''a/CM32L_PCM.ROM'', control_image = None\<rparr>"
  let ?e2 = "\<lparr>pcm_image = Some ''a/CM32L_CONTROL.ROM'', control_image = None\<rparr>"
  have 1: "InDir ?w (Some no_roms) ''a/'' cm32l_nover_model =
           Inr (True, ?m1,
                [PathExists ''a/CM32L_PCM.ROM'', IdentifyROMFile ''a/CM32L_PCM.ROM'',
                 PathExists ''a/CM32L_CONTROL.ROM'', IdentifyROMFile ''a/CM32L_CONTROL.ROM''])"
    by (simp add: model_defs rom_defs resolver_defs retry_disk_def)
  have 2: "loaded_pcm ?w ''a/'' ?m1 no_roms = (True, ?e1)"
    by (simp add: model_defs rom_defs resolver_defs retry_disk_def)
  have 3: "loaded_ctrl ?w ''a/'' ?m1 ?e1 = (False, ?e2)"
    by (simp add: model_defs rom_defs resolver_defs retry_disk_def)
  have 4: "\<not> (True \<and> False)" by simp
  have 5: "map_sum id fst (load_dirs ?w (Some ?e2) ?m1 [''b/'']) = Inr (Some ''b/'')"
    by (simp add: model_defs rom_defs resolver_defs retry_disk_def)
  from Load_partial_failure [OF 1 2 3 4, of "[''b/'']"] 5 show ?thesis
    by (simp add: load_outcome_def)
qed

text \<open>
  C4 as stated fails in its claim on the engine: where the file named as the control ROM
  holds a PCM ROM, \<open>Load\<close> returns false and the engine holds a PCM image that it
  did not hold before.
\<close>

theorem Load_rollback_counterexample:
  "map_sum id load_outcome (Load (disk_env misnamed_disk) (Some no_roms) ''a/'' cm32l_nover_model)
     = Inr (False, Some \<lparr>pcm_image = Some ''a/CM32L_CONTROL.ROM'', control_image = None\<rparr>)
   \<and> \<lparr>pcm_image = Some ''a/CM32L_CONTROL.ROM'', control_image = None\<rparr> \<noteq> no_roms"
  by (simp add: load_outcome_def model_defs rom_defs resolver_defs misnamed_disk_def)

subsection \<open>Mixer levels\<close>



end
